theory Spec2Isabelle
  imports Main "HOL-Library.Sublist"
begin

section \<open>Python strings\<close>

text \<open>
  A Python \<open>str\<close> is modelled as a \<^typ>\<open>string\<close>, each \<^typ>\<open>char\<close> read as one code
  point in the range 0..255 (ASCII and Latin-1; the output of \<open>netsh\<close>, \<open>powercfg\<close> and
  \<open>ping\<close> is ASCII). The character classes below are those of CPython 3 restricted to
  that range.
\<close>

definition isspace :: "char \<Rightarrow> bool" where
  \<comment> \<open>\<open>str.isspace\<close>, the set stripped by \<open>str.strip()\<close> and matched by \<open>\s\<close>.\<close>
  "isspace c = (let n = (of_char c :: nat) in
     (9 \<le> n \<and> n \<le> 13) \<or> (28 \<le> n \<and> n \<le> 32) \<or> n = 133 \<or> n = 160)"

definition isdigit :: "char \<Rightarrow> bool" where
  \<comment> \<open>\<open>\d\<close>: the decimal digits; below 256 these are \<open>0\<close>..\<open>9\<close> only.\<close>
  "isdigit c = (let n = (of_char c :: nat) in 48 \<le> n \<and> n \<le> 57)"

definition ishex :: "char \<Rightarrow> bool" where
  \<comment> \<open>The class \<open>[0-9a-fA-F]\<close>.\<close>
  "ishex c = (let n = (of_char c :: nat) in
     (48 \<le> n \<and> n \<le> 57) \<or> (97 \<le> n \<and> n \<le> 102) \<or> (65 \<le> n \<and> n \<le> 70))"

definition isword :: "char \<Rightarrow> bool" where
  \<comment> \<open>\<open>\w\<close>: \<open>str.isalnum\<close> or the underscore.\<close>
  "isword c = (let n = (of_char c :: nat) in
     (48 \<le> n \<and> n \<le> 57) \<or> (65 \<le> n \<and> n \<le> 90) \<or> n = 95 \<or> (97 \<le> n \<and> n \<le> 122) \<or>
     n = 170 \<or> n = 178 \<or> n = 179 \<or> n = 181 \<or> n = 185 \<or> n = 186 \<or>
     (188 \<le> n \<and> n \<le> 190) \<or> (192 \<le> n \<and> n \<le> 214) \<or> (216 \<le> n \<and> n \<le> 246) \<or> 248 \<le> n)"

definition islinebreak :: "char \<Rightarrow> bool" where
  \<comment> \<open>The line boundaries of \<open>str.splitlines()\<close>.\<close>
  "islinebreak c = (let n = (of_char c :: nat) in
     (10 \<le> n \<and> n \<le> 13) \<or> (28 \<le> n \<and> n \<le> 30) \<or> n = 133)"

definition lower_char :: "char \<Rightarrow> char" where
  "lower_char c = (let n = (of_char c :: nat) in
     if (65 \<le> n \<and> n \<le> 90) \<or> (192 \<le> n \<and> n \<le> 222 \<and> n \<noteq> 215) then char_of (n + 32) else c)"

definition lower :: "string \<Rightarrow> string" where
  "lower s = map lower_char s"

definition lstrip :: "string \<Rightarrow> string" where
  "lstrip s = dropWhile isspace s"

definition rstrip :: "string \<Rightarrow> string" where
  "rstrip s = rev (dropWhile isspace (rev s))"

definition strip :: "string \<Rightarrow> string" where
  "strip s = rstrip (lstrip s)"

definition startswith :: "string \<Rightarrow> string \<Rightarrow> bool" where
  \<comment> \<open>\<open>s.startswith(p)\<close>\<close>
  "startswith s p = prefix p s"

definition contains :: "string \<Rightarrow> string \<Rightarrow> bool" where
  \<comment> \<open>\<open>p in s\<close>\<close>
  "contains s p = sublist p s"

fun splitlines_acc :: "string \<Rightarrow> string \<Rightarrow> string list" where
  "splitlines_acc acc [] = (if acc = [] then [] else [rev acc])"
| "splitlines_acc acc [c] = (if islinebreak c then [rev acc] else [rev (c # acc)])"
| "splitlines_acc acc (c # d # cs) =
     (if c = CHR 0x0D \<and> d = CHR 0x0A then rev acc # splitlines_acc [] cs
      else if islinebreak c then rev acc # splitlines_acc [] (d # cs)
      else splitlines_acc (c # acc) (d # cs))"

definition splitlines :: "string \<Rightarrow> string list" where
  \<comment> \<open>\<open>s.splitlines()\<close>: \<open>\r\n\<close> is one boundary, no empty last line.\<close>
  "splitlines s = splitlines_acc [] s"

fun join :: "string \<Rightarrow> string list \<Rightarrow> string" where
  \<comment> \<open>\<open>sep.join(xs)\<close>\<close>
  "join sep [] = []"
| "join sep [x] = x"
| "join sep (x # y # ys) = x @ sep @ join sep (y # ys)"

definition digit_char :: "nat \<Rightarrow> char" where
  "digit_char n = ''0123456789'' ! n"

function show_nat :: "nat \<Rightarrow> string" where
  \<comment> \<open>\<open>str(n)\<close> for \<open>n \<ge> 0\<close>\<close>
  "show_nat n = (if n < 10 then [digit_char n] else show_nat (n div 10) @ [digit_char (n mod 10)])"
  by pat_completeness auto
termination
  by (relation "measure id") auto

declare show_nat.simps [simp del]

definition show_int :: "int \<Rightarrow> string" where
  \<comment> \<open>\<open>str(i)\<close>, as an f-string formats an \<open>int\<close>\<close>
  "show_int i = (if i < 0 then CHR ''-'' # show_nat (nat (- i)) else show_nat (nat i))"

section \<open>The regular expressions of the sources\<close>

text \<open>
  A backtracking matcher in the order of Python's \<open>re\<close>: a match state is the reversed text
  before the position, the text after it and the groups set so far; \<open>ms r ic st\<close> lists
  the states in which \<open>r\<close> can end when started in \<open>st\<close>, in the order in which the
  engine tries them (left alternative first, greedy repetition first). \<open>ic\<close> is
  \<open>re.IGNORECASE\<close>. Every repeated expression of the sources consumes at least one
  character per iteration.
\<close>

datatype cclass = Dot | Space | Digit | Hex

datatype regex =
    Lit string
  | Cls cclass
  | WordB
  | Seq regex regex
  | Alt regex regex
  | Star regex
  | Plus regex
  | Rep nat nat regex
  | Grp nat regex

type_synonym mstate = "string \<times> string \<times> (nat \<rightharpoonup> string)"

fun in_class :: "cclass \<Rightarrow> char \<Rightarrow> bool" where
  "in_class Dot c = (c \<noteq> CHR 0x0A)"
| "in_class Space c = isspace c"
| "in_class Digit c = isdigit c"
| "in_class Hex c = ishex c"

definition eq_ci :: "bool \<Rightarrow> char \<Rightarrow> char \<Rightarrow> bool" where
  "eq_ci ic c d = (if ic then lower_char c = lower_char d else c = d)"

fun lit_prefix :: "bool \<Rightarrow> string \<Rightarrow> string \<Rightarrow> bool" where
  "lit_prefix ic [] a = True"
| "lit_prefix ic (c # cs) [] = False"
| "lit_prefix ic (c # cs) (d # ds) = (eq_ci ic c d \<and> lit_prefix ic cs ds)"

definition at_boundary :: "string \<Rightarrow> string \<Rightarrow> bool" where
  \<comment> \<open>\<open>\b\<close>: exactly one of the characters before and after the position is a word character.\<close>
  "at_boundary b a =
     ((case b of [] \<Rightarrow> False | c # _ \<Rightarrow> isword c) \<noteq> (case a of [] \<Rightarrow> False | c # _ \<Rightarrow> isword c))"

fun reps :: "(mstate \<Rightarrow> mstate list) \<Rightarrow> nat \<Rightarrow> nat \<Rightarrow> mstate \<Rightarrow> mstate list" where
  \<comment> \<open>between \<open>lo\<close> and \<open>hi\<close> iterations of \<open>f\<close>, another iteration first\<close>
  "reps f lo 0 st = (if lo = 0 then [st] else [])"
| "reps f lo (Suc hi) st =
     concat (map (reps f (lo - 1) hi) (f st)) @ (if lo = 0 then [st] else [])"

primrec ms :: "regex \<Rightarrow> bool \<Rightarrow> mstate \<Rightarrow> mstate list" where
  "ms (Lit s) ic st = (case st of (b, a, g) \<Rightarrow>
     if lit_prefix ic s a then [(rev (take (length s) a) @ b, drop (length s) a, g)] else [])"
| "ms (Cls k) ic st = (case st of (b, a, g) \<Rightarrow>
     (case a of [] \<Rightarrow> [] | c # cs \<Rightarrow> if in_class k c then [(c # b, cs, g)] else []))"
| "ms WordB ic st = (case st of (b, a, g) \<Rightarrow> if at_boundary b a then [st] else [])"
| "ms (Seq r1 r2) ic st = concat (map (ms r2 ic) (ms r1 ic st))"
| "ms (Alt r1 r2) ic st = ms r1 ic st @ ms r2 ic st"
| "ms (Star r) ic st = reps (ms r ic) 0 (length (fst (snd st))) st"
| "ms (Plus r) ic st = reps (ms r ic) 1 (length (fst (snd st))) st"
| "ms (Rep lo hi r) ic st = reps (ms r ic) lo hi st"
| "ms (Grp i r) ic st = (case st of (b, a, g) \<Rightarrow>
     map (\<lambda>(b', a', g'). (b', a', g'(i \<mapsto> take (length a - length a') a))) (ms r ic st))"

fun seqs :: "regex list \<Rightarrow> regex" where
  "seqs [] = Lit []"
| "seqs [r] = r"
| "seqs (r # rs) = Seq r (seqs rs)"

fun search_at :: "regex \<Rightarrow> bool \<Rightarrow> string \<Rightarrow> string \<Rightarrow> mstate option" where
  "search_at r ic b a =
     (case ms r ic (b, a, Map.empty) of
        m # _ \<Rightarrow> Some m
      | [] \<Rightarrow> (case a of [] \<Rightarrow> None | c # cs \<Rightarrow> search_at r ic (c # b) cs))"

definition re_search :: "regex \<Rightarrow> bool \<Rightarrow> string \<Rightarrow> (nat \<rightharpoonup> string) option" where
  \<comment> \<open>\<open>re.search(r, s)\<close>: the groups of the first match at the leftmost position that has one\<close>
  "re_search r ic s = map_option (\<lambda>(b, a, g). g) (search_at r ic [] s)"

definition groups :: "nat \<Rightarrow> (nat \<rightharpoonup> string) \<Rightarrow> string option list" where
  \<comment> \<open>\<open>m.groups()\<close> of a pattern with \<open>n\<close> groups; \<open>None\<close> for a group that did not take part\<close>
  "groups n g = map g [1..<Suc n]"


fun findall_at :: "regex \<Rightarrow> bool \<Rightarrow> nat \<Rightarrow> string \<Rightarrow> string \<Rightarrow> string list" where
  \<comment> \<open>\<open>skip\<close> counts the characters of the last match that are still to be passed: the
      search resumes where that match ended\<close>
  "findall_at r ic skip b a =
     (if skip = 0 then
        (case ms r ic (b, a, Map.empty) of
           (b', a', g') # _ \<Rightarrow>
             take (length a - length a') a #
               (case a of [] \<Rightarrow> [] | c # cs \<Rightarrow> findall_at r ic (length a - length a' - 1) (c # b) cs)
         | [] \<Rightarrow> (case a of [] \<Rightarrow> [] | c # cs \<Rightarrow> findall_at r ic 0 (c # b) cs))
      else (case a of [] \<Rightarrow> [] | c # cs \<Rightarrow> findall_at r ic (skip - 1) (c # b) cs))"

definition re_findall :: "regex \<Rightarrow> bool \<Rightarrow> string \<Rightarrow> string list" where
  \<comment> \<open>\<open>re.findall(r, s)\<close> for a pattern without groups: the non-overlapping matches, left to right\<close>
  "re_findall r ic s = findall_at r ic 0 [] s"

section \<open>DelayKillerLite.py\<close>

subsection \<open>The environment\<close>

text \<open>
  What \<open>subprocess.run(cmd, shell=True, capture_output=True, text=True, timeout=t)\<close> can do:
  complete with a return code and the two captured streams, raise
  \<open>subprocess.TimeoutExpired\<close>, or raise another exception with a message.
\<close>

datatype proc_outcome =
    Completed int "string option" "string option"
  | TimeoutExpired
  | Raised string

record dns_info =
  dhcp :: bool
  servers :: "string list"

text \<open>
  The JSON document of \<open>BACKUP_FILE\<close>. A dictionary is an association list in insertion
  order, which \<open>json.dump\<close> and \<open>json.load\<close> keep, as they keep every string, \<open>None\<close>
  (as \<open>null\<close>) and integer. A document that lacks a key behaves as one that has the
  default the reading code passes to \<open>.get\<close>: no entries, \<open>False\<close>, no servers, \<open>None\<close>.
\<close>

record snapshot =
  tcp_globals :: "(string \<times> string option) list"
  dns :: "(string \<times> dns_info) list"
  power_guid :: "string option"
  timestamp :: "int option"

datatype backup_state =
    NoFile
  | Saved snapshot
  | Unreadable string  \<comment> \<open>a file that \<open>json.load\<close> rejects, with the message of the exception\<close>

datatype gui_var =
    Undefined          \<comment> \<open>\<open>'iface_var' not in globals()\<close>\<close>
  | Holds string       \<comment> \<open>\<open>iface_var.get()\<close> returns the string\<close>
  | Broken string      \<comment> \<open>\<open>iface_var.get()\<close> raises\<close>

datatype disk = Writable | OpenFails string | DumpFails string

text \<open>
  The state the functions act on. \<open>respond\<close> is the operating system: the outcome of a
  command line, which may depend on every command issued before it and on the timeout.
  \<open>issued\<close> is the trace of the command lines handed to \<open>subprocess.run\<close>, oldest first.
  \<open>log()\<close> swallows its own failures and returns nothing; it is left out.
\<close>

record world =
  windows :: bool
  respond :: "string list \<Rightarrow> string \<Rightarrow> nat \<Rightarrow> proc_outcome"
  issued :: "string list"
  backup_file :: backup_state
  backup_disk :: disk
  iface_var :: gui_var
  log_mtime :: "int option"

subsection \<open>Command helpers\<close>

definition run_cmd_result :: "proc_outcome \<Rightarrow> int \<times> string" where
  \<comment> \<open>the body of \<open>run_cmd\<close> after \<open>subprocess.run\<close> has returned or raised\<close>
  "run_cmd_result oc =
     (case oc of
        Completed returncode stdout stderr \<Rightarrow>
          (let out = strip (case stdout of None \<Rightarrow> [] | Some s \<Rightarrow> s) in
           (returncode,
            if out = [] \<and> (case stderr of None \<Rightarrow> False | Some e \<Rightarrow> e \<noteq> [])
            then strip (case stderr of None \<Rightarrow> [] | Some e \<Rightarrow> e) else out))
      | TimeoutExpired \<Rightarrow> (124, [])
      | Raised e \<Rightarrow> (1, e))"

definition run_cmd :: "string \<Rightarrow> nat \<Rightarrow> world \<Rightarrow> (int \<times> string) \<times> world" where
  "run_cmd cmd timeout w =
     (run_cmd_result (respond w (issued w) cmd timeout), w\<lparr>issued := issued w @ [cmd]\<rparr>)"

definition full :: "string \<Rightarrow> string" where
  \<comment> \<open>the local \<open>full\<close> of \<open>run_netsh\<close>\<close>
  "full cmd = (if startswith (lower (strip cmd)) ''netsh'' then cmd else ''netsh '' @ cmd)"

definition run_netsh :: "string \<Rightarrow> world \<Rightarrow> (int \<times> string) \<times> world" where
  "run_netsh cmd w = run_cmd (full cmd) 8 w"

fun netsh_seq :: "string list \<Rightarrow> world \<Rightarrow> world" where
  \<comment> \<open>consecutive \<open>run_netsh(...)\<close> statements whose results are dropped\<close>
  "netsh_seq [] w = w"
| "netsh_seq (c # cs) w = netsh_seq cs (snd (run_netsh c w))"

subsection \<open>Backup: the state probes\<close>

definition nl :: string where
  "nl = [CHR 0x0A]"

definition dq :: string where
  \<comment> \<open>the double quote\<close>
  "dq = [CHR 0x22]"

definition labelled :: "string \<Rightarrow> regex" where
  \<comment> \<open>\<open>(LABEL\s*:\s*)(.+)\<close>\<close>
  "labelled label =
     Seq (Grp 1 (seqs [Lit label, Star (Cls Space), Lit '':'', Star (Cls Space)]))
         (Grp 2 (Plus (Cls Dot)))"

definition short_form :: "string \<Rightarrow> regex" where
  \<comment> \<open>\<open>(\bKEY\b\s*:\s*(.+))\<close>\<close>
  "short_form key =
     Grp 3 (seqs [WordB, Lit key, WordB, Star (Cls Space), Lit '':'', Star (Cls Space),
                  Grp 4 (Plus (Cls Dot))])"

definition patterns :: "(string \<times> regex \<times> nat) list" where
  \<comment> \<open>the dictionary \<open>patterns\<close>, each pattern with the number of its groups\<close>
  "patterns =
     [(''autotuninglevel'', labelled ''Receive Window Auto-Tuning Level'', 2),
      (''ecncapability'', labelled ''ECN Capability'', 2),
      (''rss'', Alt (labelled ''Receive-Side Scaling State'') (short_form ''rss''), 4),
      (''chimney'', Alt (labelled ''Chimney Offload State'') (short_form ''chimney''), 4),
      (''congestionprovider'', labelled ''Add-On Congestion Control Provider'', 2),
      (''timestamps'', Alt (labelled ''RFC 1323 Timestamps'') (short_form ''timestamps''), 4)]"

fun first_value :: "string option list \<Rightarrow> string option" where
  \<comment> \<open>\<open>for g in ...: if g and isinstance(g, str) and g.strip(): vals[k] = g.strip(); break\<close>\<close>
  "first_value [] = None"
| "first_value (g # gs) =
     (case g of
        Some s \<Rightarrow> if s \<noteq> [] \<and> strip s \<noteq> [] then Some (strip s) else first_value gs
      | None \<Rightarrow> first_value gs)"

fun scan_patterns :: "(string \<times> regex \<times> nat) list \<Rightarrow> string \<Rightarrow> (string \<times> string option) list" where
  \<comment> \<open>\<open>for k, pat in patterns.items(): ...\<close>; a key whose match has no usable group gets no entry\<close>
  "scan_patterns [] text = []"
| "scan_patterns ((k, pat, n) # ps) text =
     (case re_search pat True text of
        Some g \<Rightarrow> (case first_value (tl (groups n g)) of Some v \<Rightarrow> [(k, Some v)] | None \<Rightarrow> [])
      | None \<Rightarrow> [(k, None)])
     @ scan_patterns ps text"

definition get_tcp_globals :: "world \<Rightarrow> (string \<times> string option) list \<times> world" where
  "get_tcp_globals w =
     (if \<not> windows w then ([], w)
      else (case run_netsh ''netsh interface tcp show global'' w of
        ((code, out), w') \<Rightarrow>
          if code \<noteq> 0 \<or> out = [] then ([], w')
          else (scan_patterns patterns (join nl (splitlines out)), w')))"

definition ipv4_re :: regex where
  \<comment> \<open>\<open>\b\d{1,3}(?:\.\d{1,3}){3}\b\<close>\<close>
  "ipv4_re = seqs [WordB, Rep 1 3 (Cls Digit), Rep 3 3 (Seq (Lit ''.'') (Rep 1 3 (Cls Digit))), WordB]"

definition dhcp_re :: regex where
  \<comment> \<open>\<open>\b(DHCP|dhcp)\b\<close>\<close>
  "dhcp_re = seqs [WordB, Grp 1 (Alt (Lit ''DHCP'') (Lit ''dhcp'')), WordB]"

definition get_dns_info :: "string \<Rightarrow> world \<Rightarrow> dns_info \<times> world" where
  "get_dns_info iface w =
     (if \<not> windows w then (\<lparr>dhcp = False, servers = []\<rparr>, w)
      else (case run_netsh (''netsh interface ipv4 show dns name='' @ dq @ iface @ dq) w of
        ((code, out), w') \<Rightarrow>
          if code \<noteq> 0 \<or> out = [] then (\<lparr>dhcp = False, servers = []\<rparr>, w')
          else (\<lparr>dhcp = (re_search dhcp_re False out \<noteq> None),
                 servers = re_findall ipv4_re False out\<rparr>, w')))"

definition guid_re :: regex where
  \<comment> \<open>\<open>([0-9a-fA-F]{8}-[0-9a-fA-F]{4}-[0-9a-fA-F]{4}-[0-9a-fA-F]{4}-[0-9a-fA-F]{12})\<close>\<close>
  "guid_re = Grp 1 (seqs [Rep 8 8 (Cls Hex), Lit ''-'', Rep 4 4 (Cls Hex), Lit ''-'',
                          Rep 4 4 (Cls Hex), Lit ''-'', Rep 4 4 (Cls Hex), Lit ''-'',
                          Rep 12 12 (Cls Hex)])"

definition get_active_power_guid :: "world \<Rightarrow> string option \<times> world" where
  "get_active_power_guid w =
     (case run_cmd ''powercfg /getactivescheme'' 4 w of
        ((code, out), w') \<Rightarrow>
          if code \<noteq> 0 \<or> out = [] then (None, w')
          else (case re_search guid_re False out of Some g \<Rightarrow> (g 1, w') | None \<Rightarrow> (None, w')))"

definition current_iface :: "string option \<Rightarrow> world \<Rightarrow> string + string" where
  \<comment> \<open>\<open>iface or (iface_var.get() if 'iface_var' in globals() else "Ethernet")\<close>;
      \<open>Inl\<close> is the exception of \<open>iface_var.get()\<close>\<close>
  "current_iface iface w =
     (if iface \<noteq> None \<and> iface \<noteq> Some [] then Inr (the iface)
      else (case iface_var w of
              Undefined \<Rightarrow> Inr ''Ethernet''
            | Holds s \<Rightarrow> Inr s
            | Broken e \<Rightarrow> Inl e))"

definition backup_settings :: "string option \<Rightarrow> world \<Rightarrow> bool \<times> world" where
  \<comment> \<open>every branch that ends in \<open>False\<close> is the \<open>except Exception\<close> clause\<close>
  "backup_settings iface w =
     (case get_tcp_globals w of (tcp, w1) \<Rightarrow>
      (case current_iface iface w1 of
         Inl e \<Rightarrow> (False, w1)
       | Inr name \<Rightarrow>
          (case get_dns_info name w1 of (info, w2) \<Rightarrow>
           (case get_active_power_guid w2 of (pw, w3) \<Rightarrow>
            (case backup_disk w3 of
               Writable \<Rightarrow>
                 (True, w3\<lparr>backup_file := Saved \<lparr>tcp_globals = tcp, dns = [(name, info)],
                                                  power_guid = pw, timestamp = log_mtime w3\<rparr>\<rparr>)
             | OpenFails e \<Rightarrow> (False, w3)
             | DumpFails e \<Rightarrow> (False, w3\<lparr>backup_file := Unreadable e\<rparr>))))))"

subsection \<open>Restore\<close>

definition mapping :: "string \<Rightarrow> (string \<Rightarrow> string) option" where
  \<comment> \<open>\<open>mapping.get(k)\<close>\<close>
  "mapping = map_of
     [(''autotuninglevel'', \<lambda>v. ''netsh interface tcp set global autotuninglevel='' @ v),
      (''ecncapability'', \<lambda>v. ''netsh interface tcp set global ecncapability='' @ v),
      (''rss'', \<lambda>v. ''netsh interface tcp set global rss='' @ v),
      (''chimney'', \<lambda>v. ''netsh interface tcp set global chimney='' @ v),
      (''congestionprovider'', \<lambda>v. ''netsh interface tcp set global congestionprovider='' @ v),
      (''timestamps'', \<lambda>v. ''netsh interface tcp set global timestamps='' @
                              (if v \<noteq> [] then v else ''enabled''))]"

fun restore_tcp :: "(string \<times> string option) list \<Rightarrow> world \<Rightarrow> world" where
  \<comment> \<open>\<open>for k, v in tcp.items(): if v: cmd = mapping.get(k); if cmd: run_netsh(cmd(v))\<close>\<close>
  "restore_tcp [] w = w"
| "restore_tcp ((k, v) # kvs) w =
     restore_tcp kvs
       (case v of
          None \<Rightarrow> w
        | Some s \<Rightarrow>
            if s \<noteq> [] then (case mapping k of None \<Rightarrow> w | Some cmd \<Rightarrow> snd (run_netsh (cmd s) w))
            else w)"

fun add_dns :: "string \<Rightarrow> nat \<Rightarrow> string list \<Rightarrow> world \<Rightarrow> world" where
  \<comment> \<open>\<open>for idx, s in enumerate(servers[1:], start=2): run_netsh(...)\<close>, entered with \<open>idx = 2\<close>\<close>
  "add_dns iface idx [] w = w"
| "add_dns iface idx (s # ss) w =
     add_dns iface (Suc idx) ss
       (snd (run_netsh (''netsh interface ipv4 add dns name='' @ dq @ iface @ dq @ '' '' @ s @
                        '' index='' @ show_nat idx) w))"

definition restore_dns_entry :: "string \<Rightarrow> dns_info \<Rightarrow> world \<Rightarrow> world" where
  \<comment> \<open>the \<open>if info.get("dhcp", False): ... else: ...\<close> statement, which \<open>restore_from_backup\<close>
      and \<open>apply_dns_mode\<close> both contain\<close>
  "restore_dns_entry iface info w =
     (if dhcp info
      then snd (run_netsh (''netsh interface ipv4 set dns name='' @ dq @ iface @ dq @ '' source=dhcp'') w)
      else (case servers info of
              [] \<Rightarrow> w
            | s0 # rest \<Rightarrow>
                add_dns iface 2 rest
                  (snd (run_netsh (''netsh interface ipv4 set dns name='' @ dq @ iface @ dq @
                                   '' static '' @ s0 @ '' primary'') w))))"

fun restore_dns :: "(string \<times> dns_info) list \<Rightarrow> world \<Rightarrow> world" where
  \<comment> \<open>\<open>for iface, info in dns.items(): if not iface: continue ...\<close>\<close>
  "restore_dns [] w = w"
| "restore_dns ((iface, info) # es) w =
     restore_dns es (if iface = [] then w else restore_dns_entry iface info w)"

definition restore_power :: "string option \<Rightarrow> world \<Rightarrow> world" where
  \<comment> \<open>\<open>if power: run_cmd(f'powercfg /setactive {power}', timeout=6)\<close>\<close>
  "restore_power p w =
     (case p of
        None \<Rightarrow> w
      | Some guid \<Rightarrow> if guid \<noteq> [] then snd (run_cmd (''powercfg /setactive '' @ guid) 6 w) else w)"

definition restore_from_backup :: "world \<Rightarrow> bool \<times> world" where
  "restore_from_backup w =
     (case backup_file w of
        NoFile \<Rightarrow> (False, w)
      | Unreadable e \<Rightarrow> (False, w)
      | Saved data \<Rightarrow>
          (True, restore_power (power_guid data) (restore_dns (dns data) (restore_tcp (tcp_globals data) w))))"

subsection \<open>Optimizations\<close>

definition apply_tcp_tweaks :: "bool \<Rightarrow> bool \<Rightarrow> world \<Rightarrow> (int \<times> string) \<times> world" where
  \<comment> \<open>no statement of the \<open>try\<close> block raises, so the \<open>except\<close> clause has no branch\<close>
  "apply_tcp_tweaks enable backup w =
     (if \<not> windows w then ((1, ''Unsupported''), w)
      else
        (let w1 = (if backup then snd (backup_settings None w) else w) in
         if enable then
           ((0, ''TCP tweaks applied''),
            netsh_seq [''netsh interface tcp set global autotuninglevel=normal'',
                       ''netsh interface tcp set global ecncapability=enabled'',
                       ''netsh interface tcp set global rss=enabled'',
                       ''netsh interface tcp set global chimney=disabled''] w1)
         else
           (case (if backup_file w1 \<noteq> NoFile then restore_from_backup w1 else (False, w1)) of
              (restored, w2) \<Rightarrow>
                if restored then ((0, ''TCP tweaks restored from backup''), w2)
                else
                  ((0, ''TCP tweaks applied''),
                   netsh_seq [''netsh interface tcp set global autotuninglevel=normal'',
                              ''netsh interface tcp set global ecncapability=default'',
                              ''netsh interface tcp set global rss=default'',
                              ''netsh interface tcp set global chimney=disabled''] w2))))"

definition apply_dns_mode :: "bool \<Rightarrow> string \<Rightarrow> world \<Rightarrow> (int \<times> string) \<times> world" where
  \<comment> \<open>an unreadable backup file makes \<open>json.load\<close> raise, which the \<open>except\<close> clause turns
      into status 1\<close>
  "apply_dns_mode enable iface w =
     (if \<not> windows w then ((1, ''Unsupported''), w)
      else
        (let name = (if iface \<noteq> [] then iface else ''Ethernet'');
             w1 = snd (backup_settings (Some name) w);
             fallback = ((0, ''DNS mode applied''),
                         netsh_seq [''netsh interface ipv4 set dns name='' @ dq @ name @ dq @ '' source=dhcp'',
                                    ''ipconfig /flushdns''] w1)
         in
         if enable then
           ((0, ''DNS mode applied''),
            netsh_seq [''netsh interface ipv4 set dns name='' @ dq @ name @ dq @ '' static 8.8.8.8 primary'',
                       ''netsh interface ipv4 add dns name='' @ dq @ name @ dq @ '' 8.8.4.4 index=2'',
                       ''ipconfig /flushdns''] w1)
         else
           (case backup_file w1 of
              NoFile \<Rightarrow> fallback
            | Unreadable e \<Rightarrow> ((1, e), w1)
            | Saved data \<Rightarrow>
                (case map_of (dns data) name of
                   None \<Rightarrow> fallback
                 | Some info \<Rightarrow>
                     ((0, ''DNS restored from backup''),
                      snd (run_netsh ''ipconfig /flushdns'' (restore_dns_entry name info w1)))))))"

section \<open>delaykiller.py\<close>

subsection \<open>The environment\<close>

text \<open>
  What \<open>subprocess.Popen(cmd, shell=True, stdout=PIPE, stderr=STDOUT, text=True)\<close> followed by
  \<open>communicate(timeout=t)\<close> can do: the process exits with a return code and the single
  merged stream, \<open>communicate\<close> raises \<open>subprocess.TimeoutExpired\<close>, or another exception
  is raised with a message.
\<close>

datatype popen_outcome =
    Exited int "string option"
  | TimedOut
  | Failed string

record pworld =
  is_windows :: bool  \<comment> \<open>\<open>IS_WINDOWS\<close>\<close>
  answer :: "string list \<Rightarrow> string \<Rightarrow> nat \<Rightarrow> popen_outcome"
  sent :: "string list"  \<comment> \<open>the command lines handed to \<open>Popen\<close>, oldest first\<close>

subsection \<open>Utilities\<close>

definition run_cmd_premium_result :: "popen_outcome \<Rightarrow> int \<times> string" where
  \<comment> \<open>the body of \<open>run_cmd\<close> of \<open>delaykiller.py\<close> after \<open>communicate\<close> has returned or raised\<close>
  "run_cmd_premium_result oc =
     (case oc of
        Exited returncode out \<Rightarrow> (returncode, strip (case out of None \<Rightarrow> [] | Some s \<Rightarrow> s))
      | TimedOut \<Rightarrow> (1, ''Timed out'')
      | Failed e \<Rightarrow> (1, e))"

definition run_cmd_premium :: "string \<Rightarrow> nat \<Rightarrow> pworld \<Rightarrow> (int \<times> string) \<times> pworld" where
  \<comment> \<open>\<open>run_cmd\<close> of \<open>delaykiller.py\<close>\<close>
  "run_cmd_premium cmd timeout w =
     (run_cmd_premium_result (answer w (sent w) cmd timeout), w\<lparr>sent := sent w @ [cmd]\<rparr>)"

subsection \<open>DNS benchmark\<close>

function replace :: "string \<Rightarrow> string \<Rightarrow> string \<Rightarrow> string" where
  \<comment> \<open>\<open>s.replace(old, new)\<close> for a non-empty \<open>old\<close>, as in both uses of the source\<close>
  "replace old new [] = []"
| "replace old new (c # cs) =
     (if old \<noteq> [] \<and> prefix old (c # cs) then new @ replace old new (drop (length old) (c # cs))
      else c # replace old new cs)"
  by pat_completeness auto
termination
  by (relation "measure (\<lambda>(old, new, s). length s)") (auto simp: Suc_le_eq)

fun split :: "char \<Rightarrow> string \<Rightarrow> string list" where
  \<comment> \<open>\<open>s.split(sep)\<close> for a separator of one character\<close>
  "split sep [] = [[]]"
| "split sep (c # cs) =
     (if c = sep then [] # split sep cs
      else (case split sep cs of [] \<Rightarrow> [[c]] | p # ps \<Rightarrow> (c # p) # ps))"

definition int_space :: "char \<Rightarrow> bool" where
  \<comment> \<open>the white space that \<open>int()\<close> accepts around the number\<close>
  "int_space c = (let n = (of_char c :: nat) in (9 \<le> n \<and> n \<le> 13) \<or> n = 32 \<or> n = 133 \<or> n = 160)"

definition digit_val :: "char \<Rightarrow> nat" where
  "digit_val c = of_char c - 48"

fun digits_acc :: "nat \<Rightarrow> string \<Rightarrow> nat option" where
  \<comment> \<open>decimal digits, single underscores allowed between two digits\<close>
  "digits_acc n [] = None"
| "digits_acc n [c] = (if isdigit c then Some (10 * n + digit_val c) else None)"
| "digits_acc n (c # d # cs) =
     (if \<not> isdigit c then None
      else if d = CHR ''_'' then
        (case cs of [] \<Rightarrow> None
         | e # es \<Rightarrow> if isdigit e then digits_acc (10 * n + digit_val c) cs else None)
      else digits_acc (10 * n + digit_val c) (d # cs))"

definition py_int :: "string \<Rightarrow> int option" where
  \<comment> \<open>\<open>int(s)\<close>; \<open>None\<close> is the \<open>ValueError\<close>\<close>
  "py_int s =
     (case rev (dropWhile int_space (rev (dropWhile int_space s))) of
        [] \<Rightarrow> None
      | c # cs \<Rightarrow>
          if c = CHR ''-'' then map_option (\<lambda>n. - int n) (digits_acc 0 cs)
          else if c = CHR ''+'' then map_option int (digits_acc 0 cs)
          else map_option int (digits_acc 0 (c # cs)))"

definition parse_average :: "string \<Rightarrow> int option" where
  \<comment> \<open>\<open>parts = line.replace(" ", "").split("="); int(parts[-1].replace("ms", ""))\<close>, and
      \<open>None\<close> when \<open>int\<close> raises\<close>
  "parse_average line = py_int (replace ''ms'' [] (last (split CHR ''='' (replace '' '' [] line))))"

fun scan_average :: "int option \<Rightarrow> string list \<Rightarrow> int option" where
  \<comment> \<open>\<open>for line in out.splitlines(): if "Average =" in line or "Average" in line: ...\<close>\<close>
  "scan_average avg [] = avg"
| "scan_average avg (line # ls) =
     scan_average
       (if contains line ''Average ='' \<or> contains line ''Average'' then parse_average line else avg) ls"

fun benchmark_loop ::
  "int \<Rightarrow> int \<Rightarrow> string list \<Rightarrow> (string \<rightharpoonup> int option) \<Rightarrow> pworld \<Rightarrow> (string \<rightharpoonup> int option) \<times> pworld" where
  \<comment> \<open>\<open>for s in servers: ...; results[s] = avg\<close>; nothing in the \<open>try\<close> block raises\<close>
  "benchmark_loop timeout count [] results w = (results, w)"
| "benchmark_loop timeout count (s # ss) results w =
     (case run_cmd_premium (''ping -n '' @ show_int count @ '' -w '' @ show_int (timeout * 1000) @
                            '' '' @ s) 10 w of
        ((code, out), w') \<Rightarrow>
          benchmark_loop timeout count ss (results(s \<mapsto> scan_average None (splitlines out))) w')"

fun all_undetermined :: "string list \<Rightarrow> (string \<rightharpoonup> int option) \<Rightarrow> (string \<rightharpoonup> int option)" where
  \<comment> \<open>\<open>for s in servers: results[s] = None\<close>\<close>
  "all_undetermined [] results = results"
| "all_undetermined (s # ss) results = all_undetermined ss (results(s \<mapsto> None))"

definition dns_benchmark ::
  "string list \<Rightarrow> int \<Rightarrow> int \<Rightarrow> pworld \<Rightarrow> (string \<rightharpoonup> int option) \<times> pworld" where
  \<comment> \<open>the source's defaults are \<open>timeout=2, count=3\<close>\<close>
  "dns_benchmark servers_list timeout count w =
     (if \<not> is_windows w then (all_undetermined servers_list Map.empty, w)
      else benchmark_loop timeout count servers_list Map.empty w)"

subsection \<open>MTU optimizer\<close>

function probe_loop :: "string \<Rightarrow> int \<Rightarrow> int \<Rightarrow> pworld \<Rightarrow> int option \<times> pworld" where
  \<comment> \<open>\<open>while mtu >= min_mtu: ...\<close> with \<open>step = 10\<close>; the result is \<open>last_good\<close>\<close>
  "probe_loop target min_mtu mtu w =
     (if mtu \<ge> min_mtu then
        (case run_cmd_premium (''ping -f -l '' @ show_int (mtu - 28) @ '' -n 1 '' @ target) 4 w of
           ((code, out), w') \<Rightarrow>
             if code = 0 \<and> contains out ''Reply'' then (Some mtu, w')
             else probe_loop target min_mtu (mtu - 10) w')
      else (None, w))"
  by pat_completeness auto
termination
  by (relation "measure (\<lambda>(target, min_mtu, mtu, w). nat (mtu - min_mtu + 1))") auto

declare probe_loop.simps [simp del]

definition probe_mtu :: "string \<Rightarrow> int \<Rightarrow> int \<Rightarrow> pworld \<Rightarrow> int option \<times> pworld" where
  \<comment> \<open>the source's defaults are \<open>target="8.8.8.8", start=1500, min_mtu=1200\<close>\<close>
  "probe_mtu target start min_mtu w =
     (if \<not> is_windows w then (None, w) else probe_loop target min_mtu start w)"

subsection \<open>MTU discovery as a descent through a list of candidates\<close>

function candidates :: "int \<Rightarrow> int \<Rightarrow> int list" where
  \<comment> \<open>the values \<open>mtu\<close> takes at the loop test while it holds: \<open>start, start - 10, ...\<close>\<close>
  "candidates mtu min_mtu = (if mtu \<ge> min_mtu then mtu # candidates (mtu - 10) min_mtu else [])"
  by pat_completeness auto
termination
  by (relation "measure (\<lambda>(mtu, min_mtu). nat (mtu - min_mtu + 1))") auto

declare candidates.simps [simp del]

definition ping_cmd :: "string \<Rightarrow> int \<Rightarrow> string" where
  \<comment> \<open>the command line of one probe with the given payload\<close>
  "ping_cmd target payload = ''ping -f -l '' @ show_int payload @ '' -n 1 '' @ target"

definition probe_ok :: "int \<times> string \<Rightarrow> bool" where
  \<comment> \<open>the success test \<open>code == 0 and "Reply" in out\<close>\<close>
  "probe_ok r = (fst r = 0 \<and> contains (snd r) ''Reply'')"

fun descend :: "string \<Rightarrow> int list \<Rightarrow> pworld \<Rightarrow> int option \<times> pworld" where
  \<comment> \<open>the spec's words: one probe per candidate at \<open>candidate - 28\<close>, accept the first that
      succeeds, undetermined when the candidates are used up\<close>
  "descend target [] w = (None, w)"
| "descend target (c # cs) w =
     (let r = run_cmd_premium (ping_cmd target (c - 28)) 4 w in
      if probe_ok (fst r) then (Some c, snd r) else descend target cs (snd r))"

definition payload_of :: "string \<Rightarrow> nat" where
  \<comment> \<open>the payload size written in a probe's command line\<close>
  "payload_of cmd = foldl (\<lambda>n c. 10 * n + digit_val c) 0 (takeWhile isdigit (drop 11 cmd))"

definition scripted :: pworld where
  \<comment> \<open>a responder that answers a probe exactly when its payload is at most 1452\<close>
  "scripted = \<lparr>is_windows = True,
               answer = (\<lambda>history cmd timeout.
                  if payload_of cmd \<le> 1452 then Exited 0 (Some ''Reply from 8.8.8.8: bytes=1452 time=9ms TTL=117'')
                  else Exited 1 (Some ''Packet needs to be fragmented but DF set.'')),
               sent = []\<rparr>"

section \<open>Command traces\<close>

text \<open>
  The command lines a run of the restore path issues, written as lists: what the spec calls
  the reverse command sequence. The properties below show that the functions above issue
  exactly these.
\<close>

definition with_issued :: "string list \<Rightarrow> world \<Rightarrow> world" where
  \<comment> \<open>the world after the command lines \<open>cs\<close> have been issued\<close>
  "with_issued cs w = w\<lparr>issued := issued w @ cs\<rparr>"

definition tcp_field_cmds :: "string \<times> string option \<Rightarrow> string list" where
  \<comment> \<open>one set command for a field of the six that has a value, none for an absent field\<close>
  "tcp_field_cmds kv =
     (case snd kv of
        None \<Rightarrow> []
      | Some v \<Rightarrow>
          if v \<noteq> [] \<and> fst kv \<in> {''autotuninglevel'', ''ecncapability'', ''rss'', ''chimney'',
                                   ''congestionprovider'', ''timestamps''}
          then [''netsh interface tcp set global '' @ fst kv @ ''='' @ v] else [])"

definition tcp_restore_cmds :: "(string \<times> string option) list \<Rightarrow> string list" where
  "tcp_restore_cmds tcp = concat (map tcp_field_cmds tcp)"

definition set_dhcp_cmd :: "string \<Rightarrow> string" where
  "set_dhcp_cmd iface = ''netsh interface ipv4 set dns name='' @ dq @ iface @ dq @ '' source=dhcp''"

definition set_primary_cmd :: "string \<Rightarrow> string \<Rightarrow> string" where
  "set_primary_cmd iface s =
     ''netsh interface ipv4 set dns name='' @ dq @ iface @ dq @ '' static '' @ s @ '' primary''"

definition add_dns_cmd :: "string \<Rightarrow> string \<Rightarrow> nat \<Rightarrow> string" where
  "add_dns_cmd iface s idx =
     ''netsh interface ipv4 add dns name='' @ dq @ iface @ dq @ '' '' @ s @ '' index='' @ show_nat idx"

definition dns_entry_cmds :: "string \<Rightarrow> dns_info \<Rightarrow> string list" where
  \<comment> \<open>the source-dhcp command alone, or the static primary first and then one add command
      per remaining server with indices 2, 3, ...\<close>
  "dns_entry_cmds iface info =
     (if dhcp info then [set_dhcp_cmd iface]
      else (case servers info of
              [] \<Rightarrow> []
            | s0 # rest \<Rightarrow>
                set_primary_cmd iface s0 #
                map (\<lambda>(idx, s). add_dns_cmd iface s idx) (enumerate 2 rest)))"

definition dns_restore_cmds :: "(string \<times> dns_info) list \<Rightarrow> string list" where
  "dns_restore_cmds es =
     concat (map (\<lambda>(iface, info). if iface = [] then [] else dns_entry_cmds iface info) es)"

definition power_restore_cmds :: "string option \<Rightarrow> string list" where
  "power_restore_cmds p =
     (case p of None \<Rightarrow> [] | Some guid \<Rightarrow> if guid \<noteq> [] then [''powercfg /setactive '' @ guid] else [])"

definition tcp_off_defaults :: "string list" where
  \<comment> \<open>the hardcoded sequence of the disable path\<close>
  "tcp_off_defaults =
     [''netsh interface tcp set global autotuninglevel=normal'',
      ''netsh interface tcp set global ecncapability=default'',
      ''netsh interface tcp set global rss=default'',
      ''netsh interface tcp set global chimney=disabled'']"

definition tcp_on_profile :: "string list" where
  \<comment> \<open>the fixed sequence of the enable path\<close>
  "tcp_on_profile =
     [''netsh interface tcp set global autotuninglevel=normal'',
      ''netsh interface tcp set global ecncapability=enabled'',
      ''netsh interface tcp set global rss=enabled'',
      ''netsh interface tcp set global chimney=disabled'']"

definition probe_cmds :: "string option \<Rightarrow> world \<Rightarrow> string list" where
  \<comment> \<open>the queries of one run of \<open>backup_settings\<close>\<close>
  "probe_cmds iface w =
     (if windows w then [''netsh interface tcp show global''] else []) @
     (case current_iface iface w of
        Inl e \<Rightarrow> []
      | Inr name \<Rightarrow>
          (if windows w then [''netsh interface ipv4 show dns name='' @ dq @ name @ dq] else []) @
          [''powercfg /getactivescheme''])"

definition off_cmds :: "world \<Rightarrow> string list" where
  \<comment> \<open>what the disable path of \<open>apply_tcp_tweaks\<close> issues after the optional capture\<close>
  "off_cmds w =
     (case backup_file w of
        Saved data \<Rightarrow> tcp_restore_cmds (tcp_globals data) @ dns_restore_cmds (dns data) @
                        power_restore_cmds (power_guid data)
      | _ \<Rightarrow> tcp_off_defaults)"

section \<open>Properties\<close>

subsection \<open>MTU discovery\<close>

lemma probe_loop_descend:
  "probe_loop target min_mtu mtu w = descend target (candidates mtu min_mtu) w"
proof (induction target min_mtu mtu w rule: probe_loop.induct)
  case (1 target min_mtu mtu w)
  show ?case
  proof (cases "mtu \<ge> min_mtu")
    case True
    obtain code out w' where r:
      "run_cmd_premium (''ping -f -l '' @ show_int (mtu - 28) @ '' -n 1 '' @ target) 4 w = ((code, out), w')"
      by (metis prod.exhaust)
    show ?thesis
    proof (cases "code = 0 \<and> contains out ''Reply''")
      case ok: True
      then show ?thesis using True r
        by (subst probe_loop.simps, subst candidates.simps) (simp add: ping_cmd_def probe_ok_def Let_def)
    next
      case bad: False
      have "probe_loop target min_mtu (mtu - 10) w' = descend target (candidates (mtu - 10) min_mtu) w'"
        using "1.IH"[OF True r[symmetric] refl bad] .
      then show ?thesis using True r bad
        by (subst probe_loop.simps, subst candidates.simps) (auto simp add: ping_cmd_def probe_ok_def Let_def)
    qed
  next
    case False
    then show ?thesis
      by (subst probe_loop.simps, subst candidates.simps) simp
  qed
qed

lemma candidates_default:
  "candidates 1500 1200 = map (\<lambda>i. 1500 - 10 * int i) [0..<31]"
  by (simp add: candidates.simps upt_rec)

lemma descend_sent:
  "\<exists>k \<le> length cs.
     sent (snd (descend target cs w)) = sent w @ map (\<lambda>c. ping_cmd target (c - 28)) (take k cs) \<and>
     (case fst (descend target cs w) of None \<Rightarrow> k = length cs | Some m \<Rightarrow> 0 < k \<and> m = cs ! (k - 1))"
proof (induction cs arbitrary: w)
  case Nil
  then show ?case by simp
next
  case (Cons c cs)
  let ?r = "run_cmd_premium (ping_cmd target (c - 28)) 4 w"
  have s: "sent (snd ?r) = sent w @ [ping_cmd target (c - 28)]"
    by (simp add: run_cmd_premium_def)
  show ?case
  proof (cases "probe_ok (fst ?r)")
    case True
    then show ?thesis using s by (intro exI[of _ 1]) (simp add: Let_def)
  next
    case False
    from Cons.IH[of "snd ?r"] obtain k where k: "k \<le> length cs"
      "sent (snd (descend target cs (snd ?r))) =
         sent (snd ?r) @ map (\<lambda>c. ping_cmd target (c - 28)) (take k cs)"
      "(case fst (descend target cs (snd ?r)) of None \<Rightarrow> k = length cs
        | Some m \<Rightarrow> 0 < k \<and> m = cs ! (k - 1))"
      by blast
    show ?thesis using False k s
      by (intro exI[of _ "Suc k"]) (auto simp: Let_def split: option.splits)
  qed
qed

lemma scripted_run:
  "probe_mtu ''8.8.8.8'' 1500 1200 scripted =
     (Some 1480, scripted\<lparr>sent := [''ping -f -l 1472 -n 1 8.8.8.8'', ''ping -f -l 1462 -n 1 8.8.8.8'',
                                     ''ping -f -l 1452 -n 1 8.8.8.8'']\<rparr>)"
  by (simp add: probe_mtu_def scripted_def probe_loop.simps run_cmd_premium_def
      run_cmd_premium_result_def show_int_def show_nat.simps digit_char_def payload_of_def
      isdigit_def digit_val_def contains_def strip_def lstrip_def rstrip_def isspace_def)

text \<open>
  Claim C5, as amended. On Windows \<open>probe_mtu\<close> with the defaults 1500 and 1200 is the descent
  through the 31 candidates 1500, 1490, ..., 1200: one probe per candidate with payload
  \<open>candidate - 28\<close>, the first candidate whose probe succeeds is returned and nothing is
  probed after it, and \<open>None\<close> is returned when all 31 probes have failed; so the probes
  issued are those of the first \<open>k \<le> 31\<close> candidates, in order. Against the responder that
  answers exactly the payloads up to 1452 the result is 1480 after three probes (1500 and
  1490 fail, 1480 succeeds), not two.
\<close>

theorem probe_mtu_linear_descent:
  assumes "is_windows w"
  shows "probe_mtu target 1500 1200 w = descend target (map (\<lambda>i. 1500 - 10 * int i) [0..<31]) w \<and>
         (\<exists>k \<le> 31.
            sent (snd (probe_mtu target 1500 1200 w)) =
              sent w @ map (\<lambda>i. ping_cmd target (1500 - 10 * int i - 28)) [0..<k] \<and>
            (case fst (probe_mtu target 1500 1200 w) of
               None \<Rightarrow> k = 31
             | Some m \<Rightarrow> 0 < k \<and> m = 1500 - 10 * int (k - 1))) \<and>
         fst (probe_mtu ''8.8.8.8'' 1500 1200 scripted) = Some 1480 \<and>
         length (sent (snd (probe_mtu ''8.8.8.8'' 1500 1200 scripted))) = 3"
proof -
  let ?cs = "map (\<lambda>i. 1500 - 10 * int i) [0..<31]"
  have eq: "probe_mtu target 1500 1200 w = descend target ?cs w"
    using assms by (simp only: probe_mtu_def probe_loop_descend candidates_default simp_thms if_False)
  from descend_sent[of ?cs target w] obtain k where k: "k \<le> length ?cs"
    "sent (snd (descend target ?cs w)) = sent w @ map (\<lambda>c. ping_cmd target (c - 28)) (take k ?cs)"
    "(case fst (descend target ?cs w) of None \<Rightarrow> k = length ?cs | Some m \<Rightarrow> 0 < k \<and> m = ?cs ! (k - 1))"
    by blast
  have tk: "take k ?cs = map (\<lambda>i. 1500 - 10 * int i) [0..<k]"
    using k(1) unfolding take_map by (simp add: min_absorb2 del: upt_Suc)
  have nth: "0 < k \<Longrightarrow> ?cs ! (k - 1) = 1500 - 10 * int (k - 1)"
    using k(1) by (simp del: upt_Suc)
  have trace: "\<exists>k \<le> 31.
           sent (snd (probe_mtu target 1500 1200 w)) =
             sent w @ map (\<lambda>i. ping_cmd target (1500 - 10 * int i - 28)) [0..<k] \<and>
           (case fst (probe_mtu target 1500 1200 w) of
              None \<Rightarrow> k = 31
            | Some m \<Rightarrow> 0 < k \<and> m = 1500 - 10 * int (k - 1))"
    unfolding eq using k nth
    by (intro exI[of _ k]) (auto simp: tk comp_def simp del: upt_Suc split: option.splits)
  have run: "fst (probe_mtu ''8.8.8.8'' 1500 1200 scripted) = Some 1480 \<and>
        length (sent (snd (probe_mtu ''8.8.8.8'' 1500 1200 scripted))) = 3"
    by (simp add: scripted_run)
  from eq trace run show ?thesis by blast
qed

theorem probe_mtu_linear_descent_witness:
  "is_windows scripted \<and>
   descend ''8.8.8.8'' (map (\<lambda>i. 1500 - 10 * int i) [0..<31]) scripted =
     (Some 1480, scripted\<lparr>sent := [''ping -f -l 1472 -n 1 8.8.8.8'', ''ping -f -l 1462 -n 1 8.8.8.8'',
                                     ''ping -f -l 1452 -n 1 8.8.8.8'']\<rparr>)"
proof -
  have w: "is_windows scripted" by (simp add: scripted_def)
  from probe_mtu_linear_descent[OF w, of "''8.8.8.8''", THEN conjunct1] show ?thesis
    using w by (simp only: scripted_run simp_thms)
qed

theorem probe_mtu_two_probes_counterexample:
  "\<not> (fst (probe_mtu ''8.8.8.8'' 1500 1200 scripted) = Some 1480 \<and>
      length (sent (snd (probe_mtu ''8.8.8.8'' 1500 1200 scripted))) = 2)"
  by (simp add: scripted_run)

subsection \<open>The command trace of the restore path\<close>

lemma with_issued_Nil [simp]: "with_issued [] w = w"
  by (simp add: with_issued_def)

lemma with_issued_twice [simp]: "with_issued cs (with_issued bs w) = with_issued (bs @ cs) w"
  by (simp add: with_issued_def)

lemma with_issued_fields [simp]:
  "issued (with_issued cs w) = issued w @ cs"
  "windows (with_issued cs w) = windows w"
  "respond (with_issued cs w) = respond w"
  "backup_file (with_issued cs w) = backup_file w"
  "backup_disk (with_issued cs w) = backup_disk w"
  "iface_var (with_issued cs w) = iface_var w"
  "log_mtime (with_issued cs w) = log_mtime w"
  by (simp_all add: with_issued_def)

lemma with_issued_backup_file:
  "with_issued cs (w\<lparr>backup_file := f\<rparr>) = (with_issued cs w)\<lparr>backup_file := f\<rparr>"
  by (simp add: with_issued_def)

lemma snd_run_cmd [simp]: "snd (run_cmd cmd t w) = with_issued [cmd] w"
  by (simp add: run_cmd_def with_issued_def)

lemma snd_run_netsh [simp]: "snd (run_netsh cmd w) = with_issued [full cmd] w"
  by (simp add: run_netsh_def)

lemma strip_keeps_prefix:
  assumes "p \<noteq> []" "\<not> isspace (hd p)" "\<not> isspace (last p)"
  shows "prefix p (strip (p @ r))"
proof -
  have l: "lstrip (p @ r) = p @ r"
    using assms(1,2) by (cases p) (simp_all add: lstrip_def)
  have "dropWhile isspace (rev p) = rev p"
    using assms(1,3) by (cases "rev p") (auto simp: last_rev hd_rev dest: arg_cong[where f=hd])
  then have "dropWhile isspace (rev r @ rev p) = dropWhile isspace (rev r) @ rev p"
    by (metis dropWhile_append dropWhile_append1 dropWhile_append2 dropWhile_eq_Nil_conv self_append_conv2
        append_Nil)
  then show ?thesis
    by (simp add: strip_def rstrip_def l)
qed

lemma full_netsh [simp]:
  "full (CHR ''n'' # CHR ''e'' # CHR ''t'' # CHR ''s'' # CHR ''h'' # r) =
     CHR ''n'' # CHR ''e'' # CHR ''t'' # CHR ''s'' # CHR ''h'' # r"
proof -
  have "prefix ''netsh'' (strip (''netsh'' @ r))"
    by (rule strip_keeps_prefix) (simp_all add: isspace_def)
  then obtain z where "strip (''netsh'' @ r) = ''netsh'' @ z"
    by (auto simp: prefix_def)
  then have "startswith (lower (strip (''netsh'' @ r))) ''netsh''"
    by (simp add: startswith_def lower_def lower_char_def)
  then show ?thesis by (simp add: full_def)
qed

lemma full_ipconfig: "full ''ipconfig /flushdns'' = ''netsh ipconfig /flushdns''"
  by (simp add: full_def startswith_def lower_def lower_char_def strip_def lstrip_def rstrip_def isspace_def)

lemma netsh_seq_trace: "netsh_seq cs w = with_issued (map full cs) w"
  by (induction cs arbitrary: w) simp_all

lemma mapping_known:
  "mapping k = (if k \<in> {''autotuninglevel'', ''ecncapability'', ''rss'', ''chimney'',
                          ''congestionprovider'', ''timestamps''}
                then Some (\<lambda>v. ''netsh interface tcp set global '' @ k @ ''='' @ (if k = ''timestamps'' \<and> v = [] then ''enabled'' else v))
                else None)"
  by (auto simp: mapping_def fun_eq_iff)

lemma restore_tcp_trace: "restore_tcp tcp w = with_issued (tcp_restore_cmds tcp) w"
proof (induction tcp arbitrary: w)
  case Nil
  then show ?case by (simp add: tcp_restore_cmds_def)
next
  case (Cons kv tcp)
  obtain k v where kv: "kv = (k, v)" by (cases kv)
  show ?case
    unfolding kv
    by (cases v) (auto simp: Cons.IH tcp_restore_cmds_def tcp_field_cmds_def mapping_known)
qed

lemma add_dns_trace:
  "add_dns iface idx ss w = with_issued (map (\<lambda>(i, s). add_dns_cmd iface s i) (enumerate idx ss)) w"
  by (induction ss arbitrary: idx w) (simp_all add: add_dns_cmd_def)

lemma restore_dns_entry_trace:
  "restore_dns_entry iface info w = with_issued (dns_entry_cmds iface info) w"
  by (simp add: restore_dns_entry_def dns_entry_cmds_def add_dns_trace set_dhcp_cmd_def
      set_primary_cmd_def split: list.splits)

lemma restore_dns_trace: "restore_dns es w = with_issued (dns_restore_cmds es) w"
  by (induction es arbitrary: w) (auto simp: dns_restore_cmds_def restore_dns_entry_trace)

lemma restore_power_trace: "restore_power p w = with_issued (power_restore_cmds p) w"
  by (simp add: restore_power_def power_restore_cmds_def split: option.splits)

lemma restore_from_backup_trace:
  "restore_from_backup w =
     (case backup_file w of
        Saved data \<Rightarrow>
          (True, with_issued (tcp_restore_cmds (tcp_globals data) @ dns_restore_cmds (dns data) @
                              power_restore_cmds (power_guid data)) w)
      | _ \<Rightarrow> (False, w))"
  by (simp add: restore_from_backup_def restore_tcp_trace restore_dns_trace restore_power_trace
      split: backup_state.splits)

subsection \<open>Capture and the TCP tweak\<close>

lemma get_tcp_globals_world:
  "snd (get_tcp_globals w) =
     with_issued (if windows w then [''netsh interface tcp show global''] else []) w"
  by (simp add: get_tcp_globals_def run_netsh_def run_cmd_def with_issued_def split: prod.splits)

lemma get_dns_info_world:
  "snd (get_dns_info iface w) =
     with_issued (if windows w then [''netsh interface ipv4 show dns name='' @ dq @ iface @ dq] else []) w"
  by (simp add: get_dns_info_def run_netsh_def run_cmd_def with_issued_def dq_def split: prod.splits)

lemma get_active_power_guid_world:
  "snd (get_active_power_guid w) = with_issued [''powercfg /getactivescheme''] w"
  by (simp add: get_active_power_guid_def run_cmd_def with_issued_def split: prod.splits option.splits)

lemma current_iface_with_issued [simp]:
  "current_iface iface (with_issued cs w) = current_iface iface w"
  by (simp add: current_iface_def)

lemma backup_settings_flag:
  "fst (backup_settings iface w) =
     ((\<exists>name. current_iface iface w = Inr name) \<and> backup_disk w = Writable)"
proof -
  obtain tcp w1 where t: "get_tcp_globals w = (tcp, w1)" by (cases "get_tcp_globals w")
  have w1: "w1 = with_issued (if windows w then [''netsh interface tcp show global''] else []) w"
    using get_tcp_globals_world[of w] t by simp
  have ci: "current_iface iface w1 = current_iface iface w"
    by (simp add: w1)
  show ?thesis
  proof (cases "current_iface iface w")
    case (Inl e)
    then show ?thesis by (simp add: backup_settings_def t ci)
  next
    case (Inr name)
    obtain info w2 where d: "get_dns_info name w1 = (info, w2)" by (cases "get_dns_info name w1")
    obtain pw w3 where p: "get_active_power_guid w2 = (pw, w3)" by (cases "get_active_power_guid w2")
    have "backup_disk w3 = backup_disk w"
      using get_dns_info_world[of name w1] get_active_power_guid_world[of w2] d p w1 by simp
    then show ?thesis
      using Inr by (simp add: backup_settings_def t ci d p split: disk.splits)
  qed
qed

lemma backup_settings_world:
  "\<exists>f. snd (backup_settings iface w) = (with_issued (probe_cmds iface w) w)\<lparr>backup_file := f\<rparr>"
proof -
  obtain tcp w1 where t: "get_tcp_globals w = (tcp, w1)" by (cases "get_tcp_globals w")
  have w1: "w1 = with_issued (if windows w then [''netsh interface tcp show global''] else []) w"
    using get_tcp_globals_world[of w] t by simp
  have ci: "current_iface iface w1 = current_iface iface w"
    by (simp add: w1)
  have same: "\<And>v. v\<lparr>backup_file := backup_file v\<rparr> = v"
    by simp
  show ?thesis
  proof (cases "current_iface iface w")
    case (Inl e)
    have "snd (backup_settings iface w) = with_issued (probe_cmds iface w) w"
      using Inl by (simp add: backup_settings_def t ci probe_cmds_def w1)
    then show ?thesis
      using same[of "with_issued (probe_cmds iface w) w"] by metis
  next
    case (Inr name)
    obtain info w2 where d: "get_dns_info name w1 = (info, w2)" by (cases "get_dns_info name w1")
    obtain pw w3 where p: "get_active_power_guid w2 = (pw, w3)" by (cases "get_active_power_guid w2")
    have w3: "w3 = with_issued (probe_cmds iface w) w"
      using get_dns_info_world[of name w1] get_active_power_guid_world[of w2] d p w1 Inr
      by (simp add: probe_cmds_def)
    show ?thesis
    proof (cases "backup_disk w3")
      case Writable
      then show ?thesis using Inr
        by (simp add: backup_settings_def t ci d p w3[symmetric]) blast
    next
      case (OpenFails e)
      then have "snd (backup_settings iface w) = w3" using Inr
        by (simp add: backup_settings_def t ci d p)
      then show ?thesis
        using same[of w3] unfolding w3 by metis
    next
      case (DumpFails e)
      then show ?thesis using Inr
        by (simp add: backup_settings_def t ci d p w3[symmetric]) blast
    qed
  qed
qed

lemma backup_settings_windows [simp]: "windows (snd (backup_settings iface w)) = windows w"
  using backup_settings_world[of iface w] by auto

lemma apply_tcp_tweaks_on:
  "windows w \<Longrightarrow>
   apply_tcp_tweaks True backup w =
     ((0, ''TCP tweaks applied''),
      with_issued tcp_on_profile (if backup then snd (backup_settings None w) else w))"
  by (simp add: apply_tcp_tweaks_def netsh_seq_trace tcp_on_profile_def Let_def)

lemma apply_tcp_tweaks_off:
  assumes "windows w"
  shows "apply_tcp_tweaks False backup w =
     (let w1 = (if backup then snd (backup_settings None w) else w) in
      ((0, case backup_file w1 of Saved data \<Rightarrow> ''TCP tweaks restored from backup''
                                  | _ \<Rightarrow> ''TCP tweaks applied''),
       with_issued (off_cmds w1) w1))"
  using assms
  by (simp add: apply_tcp_tweaks_def restore_from_backup_trace netsh_seq_trace tcp_off_defaults_def
      off_cmds_def Let_def split: backup_state.splits)

end
